theory Spec2Isabelle
  imports Main "HOL-Library.Multiset"
begin

section \<open>Common data\<close>

text \<open>
  Go errors are modelled by their message. A Go function returning \<open>error\<close> returns
  \<open>error option\<close> (\<open>None\<close> is \<open>nil\<close>); one returning \<open>(T, error)\<close> returns
  \<open>error + T\<close>.
\<close>

datatype error = Err string

fun errMsg :: "error \<Rightarrow> string" where
  "errMsg (Err s) = s"

section \<open>Supervisor: OVN external ids (minion/supervisor, cfgOVNImpl)\<close>

text \<open>
  \<open>execRun\<close> is a package variable so that the unit tests can replace it. A shell is the
  list of commands issued so far together with the way the outside world answers a
  command, given that history: the output, and an error if the command failed.
\<close>

type_synonym cmd = "string \<times> string list"

record shell =
  issued :: "cmd list"
  respond :: "cmd list \<Rightarrow> cmd \<Rightarrow> string \<times> error option"

definition execRun :: "string \<Rightarrow> string list \<Rightarrow> shell \<Rightarrow> (string \<times> error option) \<times> shell" where
  "execRun name arg sh =
     (respond sh (issued sh) (name, arg), sh\<lparr>issued := issued sh @ [(name, arg)]\<rparr>)"

definition tunnelingProtocol :: string where
  "tunnelingProtocol = ''stt''"

text \<open>
  The \<open>%q\<close> verb of \<open>fmt.Sprintf\<close> on a string that has no quote, backslash or
  non-printable byte (an IP address): the string between double quotes. The functions
  below take the verb as a parameter \<open>q\<close>; \<open>quoteIP\<close> instantiates it on concrete inputs.
\<close>

definition quoteIP :: "string \<Rightarrow> string" where
  "quoteIP s = [CHR 0x22] @ s @ [CHR 0x22]"

definition ovnConf :: "(string \<Rightarrow> string) \<Rightarrow> string \<Rightarrow> string \<Rightarrow> (string \<times> string) list" where
  "ovnConf q myIP leaderIP =
     [(''external_ids:ovn-remote'', [CHR 0x22] @ ''tcp:'' @ leaderIP @ '':6640'' @ [CHR 0x22]),
      (''external_ids:ovn-encap-ip'', q myIP),
      (''external_ids:ovn-encap-type'', tunnelingProtocol),
      (''external_ids:api_server'', [CHR 0x22] @ ''http://'' @ leaderIP @ '':9000'' @ [CHR 0x22]),
      (''external_ids:system-id'', q myIP)]"

definition expOutput :: "(string \<times> string) list \<Rightarrow> string" where
  "expOutput conf = concat (map (\<lambda>kv. snd kv @ [CHR 0x0A]) conf)"

definition getCmd :: "(string \<times> string) list \<Rightarrow> string list" where
  "getCmd conf = [''--if-exists'', ''get'', ''Open_vSwitch'', ''.''] @ map fst conf"

definition setCmd :: "(string \<times> string) list \<Rightarrow> string list" where
  "setCmd conf = [''set'', ''Open_vSwitch'', ''.''] @ map (\<lambda>kv. fst kv @ ''='' @ snd kv) conf"

definition cfgOVNImpl ::
  "(string \<Rightarrow> string) \<Rightarrow> string \<Rightarrow> string \<Rightarrow> shell \<Rightarrow> error option \<times> shell" where
  "cfgOVNImpl q myIP leaderIP sh =
     (let conf = ovnConf q myIP leaderIP in
      case execRun ''ovs-vsctl'' (getCmd conf) sh of
        ((actualOutput, Some err), sh1) \<Rightarrow> (Some (Err (''get OVN config: '' @ errMsg err)), sh1)
      | ((actualOutput, None), sh1) \<Rightarrow>
          if actualOutput \<noteq> expOutput conf then
            (case execRun ''ovs-vsctl'' (setCmd conf) sh1 of
               ((out, Some err), sh2) \<Rightarrow> (Some (Err (''set OVN config: '' @ errMsg err)), sh2)
             | ((out, None), sh2) \<Rightarrow> (None, sh2))
          else (None, sh1))"

text \<open>A shell whose \<open>get\<close> answers with a fixed output and whose other commands succeed.\<close>

definition fixedShell :: "string \<Rightarrow> shell" where
  "fixedShell out = \<lparr>issued = [], respond = (\<lambda>h c. (out, None))\<rparr>"

section \<open>Docker run options (minion/docker)\<close>

record HostMount =
  Target :: string
  Source :: string
  Type :: string
  Propagation :: "string option"

text \<open>Go maps are association lists here; iterating one visits its entries in list order.\<close>

record RunOptions =
  Name :: string
  Image :: string
  Args :: "string list"
  Labels :: "(string \<times> string) list"
  Env :: "(string \<times> string) list"
  FilepathToContent :: "(string \<times> string) list"
  IP :: string
  Hostname :: string
  NetworkMode :: string
  DNS :: "string list"
  DNSSearch :: "string list"
  PidMode :: string
  Privileged :: bool
  VolumesFrom :: "string list"
  CapAdd :: "string list"
  Mounts :: "HostMount list"

text \<open>The zero value \<open>RunOptions{}\<close>.\<close>

definition zeroRunOptions :: RunOptions where
  "zeroRunOptions =
     \<lparr>Name = '''', Image = '''', Args = [], Labels = [], Env = [], FilepathToContent = [],
      IP = '''', Hostname = '''', NetworkMode = '''', DNS = [], DNSSearch = [], PidMode = '''',
      Privileged = False, VolumesFrom = [], CapAdd = [], Mounts = []\<rparr>"

section \<open>Supervisor: desired containers of a worker (minion/supervisor, runWorkerOnce)\<close>

definition EtcdName :: string where "EtcdName = ''etcd''"
definition OvncontrollerName :: string where "OvncontrollerName = ''ovn-controller''"
definition OvnnorthdName :: string where "OvnnorthdName = ''ovn-northd''"
definition OvsdbName :: string where "OvsdbName = ''ovsdb-server''"
definition OvsvswitchdName :: string where "OvsvswitchdName = ''ovs-vswitchd''"
definition RegistryName :: string where "RegistryName = ''registry''"

definition ovsImage :: string where "ovsImage = ''keldaio/ovs''"
definition etcdImage :: string where "etcdImage = ''quay.io/coreos/etcd:v3.3''"
definition registryImage :: string where "registryImage = ''registry:2.6.2''"

definition etcdHeartbeatInterval :: string where "etcdHeartbeatInterval = ''500''"
definition etcdElectionTimeout :: string where "etcdElectionTimeout = ''5000''"

text \<open>
  Modelled from the spec: the constant \<open>KubeletName\<close> is declared outside the files at
  hand; the spec calls the container "a kubelet".
\<close>

definition KubeletName :: string where "KubeletName = ''kubelet''"

text \<open>
  Modelled from the spec: the helper \<open>etcdContainer\<close> is declared outside the files at
  hand; the spec calls its result "an etcd container", run with the arguments it is given.
\<close>

definition etcdContainer :: "string list \<Rightarrow> RunOptions" where
  "etcdContainer args = zeroRunOptions\<lparr>Name := EtcdName, Image := etcdImage, Args := args\<rparr>"

text \<open>The rows of the Minion and Etcd tables, with the columns the supervisor reads.\<close>

record Minion =
  Self :: bool
  MinionPrivateIP :: string

record Etcd =
  EtcdIPs :: "string list"
  LeaderIP :: string
  Leader :: bool

definition zeroEtcd :: Etcd where
  "zeroEtcd = \<lparr>EtcdIPs = [], LeaderIP = '''', Leader = False\<rparr>"

text \<open>\<open>strings.Join\<close>.\<close>

fun Join :: "string list \<Rightarrow> string \<Rightarrow> string" where
  "Join [] sep = ''''"
| "Join [x] sep = x"
| "Join (x # y # ys) sep = x @ sep @ Join (y # ys) sep"

definition nodeName :: "string \<Rightarrow> string" where
  "nodeName ip = ''master-'' @ ip"

definition initialClusterString :: "string list \<Rightarrow> string" where
  "initialClusterString etcdIPs =
     Join (map (\<lambda>ip. nodeName ip @ ''=http://'' @ ip @ '':2380'') etcdIPs) '',''"

text \<open>
  What runWorkerOnce takes from packages outside the files at hand: the kubelet image, the
  TLS directory and the certificate paths derived from it, and the serialisation of the
  kubeconfig for a leader address (\<open>clientcmd.Write (kubernetes.NewKubeconfig addr)\<close>),
  which may fail.
\<close>

record kubeDeps =
  kubeImage :: string
  MinionTLSDir :: string
  CACertPath :: string
  SignedCertPath :: string
  SignedKeyPath :: string
  writeKubeconfig :: "string \<Rightarrow> error + string"

definition kubeletArgs :: "kubeDeps \<Rightarrow> string \<Rightarrow> string list" where
  "kubeletArgs k myIP =
     [''kubelet'',
      ''--pod-cidr=10.0.0.0/24'',
      ''--network-plugin=cni'',
      ''--resolv-conf=/kelda_resolv.conf'',
      ''--make-iptables-util-chains=false'',
      ''--kubeconfig=/var/lib/kubelet/kubeconfig'',
      ''--hostname-override'', myIP,
      ''--anonymous-auth=false'',
      ''--client-ca-file'', CACertPath k,
      ''--tls-cert-file'', SignedCertPath k,
      ''--tls-private-key-file'', SignedKeyPath k,
      ''--allow-privileged'']"

definition bindMount :: "string \<Rightarrow> string \<Rightarrow> HostMount" where
  "bindMount src tgt = \<lparr>Target = tgt, Source = src, Type = ''bind'', Propagation = None\<rparr>"

definition kubeletContainer :: "kubeDeps \<Rightarrow> string \<Rightarrow> string \<Rightarrow> RunOptions" where
  "kubeletContainer k myIP kubeconfigBytes =
     zeroRunOptions\<lparr>
       PidMode := ''host'',
       Name := KubeletName,
       Image := kubeImage k,
       Privileged := True,
       VolumesFrom := [''minion''],
       Mounts :=
         [bindMount ''/dev'' ''/dev'',
          bindMount ''/sys'' ''/sys'',
          bindMount ''/var/run'' ''/var/run'',
          bindMount ''/var/lib/docker'' ''/var/lib/docker'',
          (bindMount ''/var/lib/kubelet/'' ''/var/lib/kubelet'')\<lparr>Propagation := Some ''shared''\<rparr>,
          bindMount (MinionTLSDir k) (MinionTLSDir k)],
       Args := kubeletArgs k myIP,
       FilepathToContent := [(''/var/lib/kubelet/kubeconfig'', kubeconfigBytes)]\<rparr>"

definition etcdProxyArgs :: "string list \<Rightarrow> string list" where
  "etcdProxyArgs etcdIPs =
     [''--initial-cluster='' @ initialClusterString etcdIPs,
      ''--heartbeat-interval='' @ etcdHeartbeatInterval,
      ''--election-timeout='' @ etcdElectionTimeout,
      ''--proxy=on'']"

text \<open>
  runWorkerOnce: the result is the list handed to \<open>joinContainers\<close> (which reconciles the
  running containers against it) and the shell after the OVN configuration. \<open>minion\<close> is
  the row \<open>conn.MinionSelf()\<close>, \<open>etcdRows\<close> the rows of the Etcd table: the Etcd row is
  read only when the table has exactly one, and is the zero row otherwise.
\<close>

definition selectEtcdRow :: "Etcd list \<Rightarrow> Etcd" where
  "selectEtcdRow etcdRows = (case etcdRows of [r] \<Rightarrow> r | _ \<Rightarrow> zeroEtcd)"

definition runWorkerOnce ::
  "(string \<Rightarrow> string) \<Rightarrow> kubeDeps \<Rightarrow> Minion \<Rightarrow> Etcd list \<Rightarrow> shell \<Rightarrow> RunOptions list \<times> shell" where
  "runWorkerOnce q k minion etcdRows sh =
     (let etcdRow = selectEtcdRow etcdRows;
          etcdIPs = EtcdIPs etcdRow;
          desired0 =
            [zeroRunOptions\<lparr>Name := OvsdbName, Image := ovsImage, Args := [''ovsdb-server''],
               VolumesFrom := [''minion'']\<rparr>,
             zeroRunOptions\<lparr>Name := OvsvswitchdName, Image := ovsImage, Args := [''ovs-vswitchd''],
               VolumesFrom := [''minion''], Privileged := True\<rparr>];
          desired1 =
            (if length etcdIPs \<noteq> 0 then desired0 @ [etcdContainer (etcdProxyArgs etcdIPs)]
             else desired0)
      in if MinionPrivateIP minion \<noteq> '''' \<and> LeaderIP etcdRow \<noteq> '''' then
           (case cfgOVNImpl q (MinionPrivateIP minion) (LeaderIP etcdRow) sh of
              (err, sh1) \<Rightarrow>
                (let desired2 =
                       (if err = None then
                          desired1 @ [zeroRunOptions\<lparr>Name := OvncontrollerName, Image := ovsImage,
                            Args := [''ovn-controller''], VolumesFrom := [''minion'']\<rparr>]
                        else desired1);
                     leaderAddr = ''https://'' @ LeaderIP etcdRow @ '':6443''
                 in (case writeKubeconfig k leaderAddr of
                       Inr kubeconfigBytes \<Rightarrow>
                         (desired2 @ [kubeletContainer k (MinionPrivateIP minion) kubeconfigBytes], sh1)
                     | Inl e \<Rightarrow> (desired2, sh1))))
         else (desired1, sh))"

text \<open>A shell on which every command fails, and sample dependencies.\<close>

definition failShell :: shell where
  "failShell = \<lparr>issued = [], respond = (\<lambda>h c. ('''', Some (Err ''exit status 1'')))\<rparr>"

definition sampleKube :: kubeDeps where
  "sampleKube =
     \<lparr>kubeImage = ''kube'', MinionTLSDir = ''/tls'', CACertPath = ''/tls/ca.crt'',
      SignedCertPath = ''/tls/kelda.crt'', SignedKeyPath = ''/tls/kelda.key'',
      writeKubeconfig = (\<lambda>addr. Inr (''server: '' @ addr))\<rparr>"

section \<open>Docker client (minion/docker)\<close>

text \<open>
  The arguments of the daemon calls. \<open>HostConfig\<close> carries, in this order, NetworkMode,
  PidMode, Privileged, VolumesFrom, DNS, DNSSearch, CapAdd and Mounts; \<open>Config\<close> carries
  Image, Hostname, Cmd, Labels and Env; \<open>CreateContainerOptions\<close> carries Name, Config and
  HostConfig (the NetworkingConfig is always nil). A tar archive of one file is its path,
  its permissions and its content.
\<close>

datatype HostConfig =
  HostConfig string string bool "string list" "string list" "string list" "string list"
    "HostMount list"

datatype Config = Config string string "string list" "(string \<times> string) list" "string list"

datatype CreateContainerOptions = CreateContainerOptions string Config HostConfig

datatype tarBuf = TarBuf string nat string

text \<open>
  The \<open>client\<close> interface, over a daemon state \<open>'d\<close>: each call takes the daemon to a new
  state and may fail. PullImage takes the repository and the tag, CreateContainer returns
  the new container's ID, UploadToContainer takes the container ID, the archive and the
  target directory, RemoveContainer takes the ID and the Force flag.
\<close>

record 'd client =
  StartContainer :: "string \<Rightarrow> HostConfig \<Rightarrow> 'd \<Rightarrow> error option \<times> 'd"
  UploadToContainer :: "string \<Rightarrow> tarBuf \<Rightarrow> string \<Rightarrow> 'd \<Rightarrow> error option \<times> 'd"
  RemoveContainer :: "string \<Rightarrow> bool \<Rightarrow> 'd \<Rightarrow> error option \<times> 'd"
  PullImage :: "string \<Rightarrow> string \<Rightarrow> 'd \<Rightarrow> error option \<times> 'd"
  CreateContainer :: "CreateContainerOptions \<Rightarrow> 'd \<Rightarrow> (error + string) \<times> 'd"

text \<open>
  A Client is the daemon behind the interface and the image cache: a Go map from
  \<open>repo:tag\<close> to a cache entry, which holds the expiration time. Times are nanoseconds
  since the zero \<open>time.Time\<close>, which is the expiration of a fresh entry. The mutexes are
  left out: calls run one after the other here.
\<close>

record 'd Client =
  daemon :: 'd
  imageCache :: "string \<rightharpoonup> nat"

definition pullCacheTimeout :: nat where
  "pullCacheTimeout = 60 * 1000000000"

text \<open>
  \<open>dkc.ParseRepositoryTag\<close> of the go-dockerclient library: the digest, from the first
  \<open>@\<close> on, is dropped; the tag is what follows the last colon, unless that contains a
  slash (the colon then belongs to a registry's port) or there is no colon.
\<close>

definition ParseRepositoryTag :: "string \<Rightarrow> string \<times> string" where
  "ParseRepositoryTag img =
     (let repoTag = takeWhile (\<lambda>c. c \<noteq> CHR ''@'') img in
      if CHR '':'' \<notin> set repoTag then (repoTag, '''')
      else
        (let tag = rev (takeWhile (\<lambda>c. c \<noteq> CHR '':'') (rev repoTag));
             repo = rev (tl (dropWhile (\<lambda>c. c \<noteq> CHR '':'') (rev repoTag)))
         in if CHR ''/'' \<notin> set tag then (repo, tag) else (repoTag, '''')))"

text \<open>
  getCacheEntry returns the entry of \<open>repo:tag\<close>, creating it when absent. The entry is
  returned as its key, with its expiration.
\<close>

definition getCacheEntry ::
  "(string \<rightharpoonup> nat) \<Rightarrow> string \<Rightarrow> string \<Rightarrow> (string \<times> nat) \<times> (string \<rightharpoonup> nat)" where
  "getCacheEntry cache repo tag =
     (let key = repo @ '':'' @ tag in
      case cache key of
        Some expiration \<Rightarrow> ((key, expiration), cache)
      | None \<Rightarrow> ((key, 0), cache(key \<mapsto> 0)))"


text \<open>
  Pull reads the clock twice: \<open>now1\<close> when it checks the entry and \<open>now2\<close> after the
  daemon has pulled the image.
\<close>

definition Pull ::
  "'d client \<Rightarrow> string \<Rightarrow> nat \<Rightarrow> nat \<Rightarrow> 'd Client \<Rightarrow> error option \<times> 'd Client" where
  "Pull ops img now1 now2 dk =
     (case ParseRepositoryTag img of
        (repo, tag0) \<Rightarrow>
          (let tag = (if tag0 = '''' then ''latest'' else tag0) in
           case getCacheEntry (imageCache dk) repo tag of
             ((key, expiration), cache1) \<Rightarrow>
               if now1 < expiration then (None, dk\<lparr>imageCache := cache1\<rparr>)
               else
                 (case PullImage ops repo tag (daemon dk) of
                    (Some err, d1) \<Rightarrow>
                      (Some (Err (''pull image error: '' @ errMsg err)),
                       dk\<lparr>daemon := d1, imageCache := cache1\<rparr>)
                  | (None, d1) \<Rightarrow>
                      (None,
                       dk\<lparr>daemon := d1, imageCache := cache1(key \<mapsto> now2 + pullCacheTimeout)\<rparr>))))"

text \<open>
  What \<open>create\<close> takes from packages outside the files at hand: \<open>util.ToTar\<close>, which may
  fail, and \<open>filepath.Rel\<close> (whose error the code ignores). \<open>filepath.IsAbs\<close> is the one of
  Unix.
\<close>

record libs =
  ToTar :: "string \<Rightarrow> nat \<Rightarrow> string \<Rightarrow> error + tarBuf"
  Rel :: "string \<Rightarrow> string \<Rightarrow> string"

definition IsAbs :: "string \<Rightarrow> bool" where
  "IsAbs path = (case path of [] \<Rightarrow> False | c # cs \<Rightarrow> c = CHR ''/'')"

text \<open>The loop of \<open>create\<close> over filepathToContent, on the daemon.\<close>

fun upload :: "'d client \<Rightarrow> libs \<Rightarrow> string \<Rightarrow> (string \<times> string) list \<Rightarrow> 'd \<Rightarrow> error option \<times> 'd" where
  "upload ops l cid [] d = (None, d)"
| "upload ops l cid ((path, content) # rest) d =
     (let dir = (if IsAbs path then ''/'' else ''.'');
          relPath = Rel l dir path
      in case ToTar l relPath 420 content of
           Inl err \<Rightarrow> (Some err, d)
         | Inr tar \<Rightarrow>
             (case UploadToContainer ops cid tar dir d of
                (Some err, d1) \<Rightarrow> (Some err, d1)
              | (None, d1) \<Rightarrow> upload ops l cid rest d1))"

definition create ::
  "'d client \<Rightarrow> libs \<Rightarrow> string \<Rightarrow> string \<Rightarrow> string \<Rightarrow> string list \<Rightarrow> (string \<times> string) list \<Rightarrow>
   string list \<Rightarrow> (string \<times> string) list \<Rightarrow> HostConfig \<Rightarrow> nat \<Rightarrow> nat \<Rightarrow> 'd Client \<Rightarrow>
   (string \<times> error option) \<times> 'd Client" where
  "create ops l name img hostname args labels env filepathToContent hc now1 now2 dk =
     (case Pull ops img now1 now2 dk of
        (Some err, dk1) \<Rightarrow> (('''', Some err), dk1)
      | (None, dk1) \<Rightarrow>
          (case CreateContainer ops
                  (CreateContainerOptions name (Config img hostname args labels env) hc)
                  (daemon dk1) of
             (Inl err, d2) \<Rightarrow> (('''', Some err), dk1\<lparr>daemon := d2\<rparr>)
           | (Inr cid, d2) \<Rightarrow>
               (case upload ops l cid filepathToContent d2 of
                  (Some err, d3) \<Rightarrow> (('''', Some err), dk1\<lparr>daemon := d3\<rparr>)
                | (None, d3) \<Rightarrow> ((cid, None), dk1\<lparr>daemon := d3\<rparr>))))"

definition RemoveID :: "'d client \<Rightarrow> string \<Rightarrow> 'd Client \<Rightarrow> error option \<times> 'd Client" where
  "RemoveID ops cid dk =
     (case RemoveContainer ops cid True (daemon dk) of
        (Some err, d1) \<Rightarrow> (Some err, dk\<lparr>daemon := d1\<rparr>)
      | (None, d1) \<Rightarrow> (None, dk\<lparr>daemon := d1\<rparr>))"

definition hostConfigOf :: "RunOptions \<Rightarrow> HostConfig" where
  "hostConfigOf opts =
     HostConfig (NetworkMode opts) (PidMode opts) (Privileged opts) (VolumesFrom opts)
       (DNS opts) (DNSSearch opts) (CapAdd opts) (Mounts opts)"

definition Run ::
  "'d client \<Rightarrow> libs \<Rightarrow> RunOptions \<Rightarrow> nat \<Rightarrow> nat \<Rightarrow> 'd Client \<Rightarrow> (string \<times> error option) \<times> 'd Client" where
  "Run ops l opts now1 now2 dk =
     (let env = map (\<lambda>(k, v). k @ ''='' @ v) (Env opts);
          hc = hostConfigOf opts
      in case create ops l (Name opts) (Image opts) (Hostname opts) (Args opts) (Labels opts) env
                (FilepathToContent opts) hc now1 now2 dk of
           ((cid, Some err), dk1) \<Rightarrow> (('''', Some err), dk1)
         | ((cid, None), dk1) \<Rightarrow>
             (case StartContainer ops cid hc (daemon dk1) of
                (Some err, d2) \<Rightarrow>
                  (case RemoveID ops cid (dk1\<lparr>daemon := d2\<rparr>) of
                     (rmErr, dk3) \<Rightarrow> (('''', Some err), dk3))
              | (None, d2) \<Rightarrow> ((cid, None), dk1\<lparr>daemon := d2\<rparr>)))"

text \<open>
  A daemon for concrete runs, with the failure switches the unit tests use: it records the
  images pulled and keeps the containers created, each with its running flag.
\<close>

record mockd =
  PullError :: bool
  CreateError :: bool
  StartError :: bool
  RemoveError :: bool
  UploadError :: bool
  Pulled :: "string list"
  Containers :: "(string \<times> bool) list"
  nextID :: nat

definition mockClient :: "mockd client" where
  "mockClient =
     \<lparr>StartContainer = (\<lambda>cid hc d.
        if StartError d then (Some (Err ''start error''), d)
        else (None, d\<lparr>Containers := map (\<lambda>(i, r). if i = cid then (i, True) else (i, r)) (Containers d)\<rparr>)),
      UploadToContainer = (\<lambda>cid tar dir d.
        if UploadError d then (Some (Err ''upload error''), d) else (None, d)),
      RemoveContainer = (\<lambda>cid force d.
        if RemoveError d then (Some (Err ''remove error''), d)
        else (None, d\<lparr>Containers := filter (\<lambda>(i, r). i \<noteq> cid) (Containers d)\<rparr>)),
      PullImage = (\<lambda>repo tag d.
        if PullError d then (Some (Err ''pull error''), d)
        else (None, d\<lparr>Pulled := Pulled d @ [repo @ '':'' @ tag]\<rparr>)),
      CreateContainer = (\<lambda>opts d.
        if CreateError d then (Inl (Err ''create error''), d)
        else (Inr (replicate (Suc (nextID d)) (CHR ''c'')),
              d\<lparr>Containers := Containers d @ [(replicate (Suc (nextID d)) (CHR ''c''), False)],
                nextID := Suc (nextID d)\<rparr>))\<rparr>"

definition mockLibs :: libs where
  "mockLibs =
     \<lparr>ToTar = (\<lambda>name perm content. Inr (TarBuf name perm content)),
      Rel = (\<lambda>dir path. if dir = ''/'' then tl path else path)\<rparr>"

definition newMock :: "mockd Client" where
  "newMock =
     \<lparr>daemon = \<lparr>PullError = False, CreateError = False, StartError = False, RemoveError = False,
        UploadError = False, Pulled = [], Containers = [], nextID = 0\<rparr>,
      imageCache = Map.empty\<rparr>"




section \<open>CLI: colouring a diff (cli/command, colorizeDiff)\<close>

text \<open>
  Modelled from the spec: colorizeDiff is declared outside the files at hand (only its
  test, TestColorize, is there). The spec has it wrap a line that starts with \<open>-\<close> in
  the red escape and a line that starts with \<open>+\<close> in the green one, each followed by a
  reset; the test fixes the three escape sequences, puts the reset after the line's
  newline and forces coloured output (\<open>color.NoColor = false\<close>), which is the setting
  modelled here. Lines are the pieces of \<open>strings.SplitAfter\<close> at the newline.
\<close>

definition red :: string where
  "red = [CHR 0x1B] @ ''[31m''"

definition green :: string where
  "green = [CHR 0x1B] @ ''[32m''"

definition reset :: string where
  "reset = [CHR 0x1B] @ ''[0m''"

text \<open>
  \<open>strings.SplitAfter s "\n"\<close>: the string cut after each newline. The pieces are never
  none: the empty string gives one empty piece, and a string that ends with a newline
  gives an empty last piece.
\<close>

fun SplitAfter :: "string \<Rightarrow> string list" where
  "SplitAfter [] = [[]]"
| "SplitAfter (c # cs) =
     (if c = CHR 0x0A then [c] # SplitAfter cs
      else (case SplitAfter cs of [] \<Rightarrow> [[c]] | l # ls \<Rightarrow> (c # l) # ls))"

definition HasPrefix :: "string \<Rightarrow> string \<Rightarrow> bool" where
  "HasPrefix s p = (take (length p) s = p)"

definition colorizeLine :: "string \<Rightarrow> string" where
  "colorizeLine line =
     (if HasPrefix line ''+'' then green @ line @ reset
      else if HasPrefix line ''-'' then red @ line @ reset
      else line)"

definition colorizeDiff :: "string \<Rightarrow> string" where
  "colorizeDiff toColorize = concat (map colorizeLine (SplitAfter toColorize))"

section \<open>Integration tester: suite ordering (byPriorityPrefix)\<close>

text \<open>
  Modelled from the spec: byPriorityPrefix is declared outside the files at hand (only its
  test, TestPriorityPrefix, is there). The spec orders names of the form \<open>NN-name\<close> by the
  integer \<open>NN\<close> first, with a default priority for a name without the prefix, and by the
  remainder, compared as byte strings, second. The default priority is a parameter:
  \<open>None\<close> is the infinity the spec names, \<open>Some d\<close> a finite default.
\<close>

definition isDigit :: "char \<Rightarrow> bool" where
  "isDigit c = (48 \<le> (of_char c :: nat) \<and> (of_char c :: nat) \<le> 57)"

definition Atoi :: "string \<Rightarrow> nat" where
  "Atoi ds = foldl (\<lambda>n c. 10 * n + ((of_char c :: nat) - 48)) 0 ds"

text \<open>The priority prefix of a name, if it has one, and the remainder.\<close>

definition splitPriority :: "string \<Rightarrow> nat option \<times> string" where
  "splitPriority name =
     (let ds = takeWhile isDigit name; rest = dropWhile isDigit name in
      case rest of
        c # remainder \<Rightarrow> if ds \<noteq> [] \<and> c = CHR ''-'' then (Some (Atoi ds), remainder) else (None, name)
      | [] \<Rightarrow> (None, name))"

text \<open>Go's \<open><\<close> on strings: bytewise lexicographic.\<close>

fun strLess :: "string \<Rightarrow> string \<Rightarrow> bool" where
  "strLess [] [] = False"
| "strLess [] (y # ys) = True"
| "strLess (x # xs) [] = False"
| "strLess (x # xs) (y # ys) =
     ((of_char x :: nat) < of_char y \<or> (x = y \<and> strLess xs ys))"

text \<open>Priorities, with \<open>None\<close> as infinity.\<close>

fun prioLess :: "nat option \<Rightarrow> nat option \<Rightarrow> bool" where
  "prioLess (Some a) (Some b) = (a < b)"
| "prioLess (Some a) None = True"
| "prioLess None b = False"

definition priorityOf :: "nat option \<Rightarrow> string \<Rightarrow> nat option" where
  "priorityOf dflt name = (case fst (splitPriority name) of Some p \<Rightarrow> Some p | None \<Rightarrow> dflt)"

definition Less :: "nat option \<Rightarrow> string \<Rightarrow> string \<Rightarrow> bool" where
  "Less dflt a b =
     (prioLess (priorityOf dflt a) (priorityOf dflt b) \<or>
      (priorityOf dflt a = priorityOf dflt b \<and> strLess (snd (splitPriority a)) (snd (splitPriority b))))"

text \<open>
  \<open>sort.Sort\<close> on a short slice is an insertion sort: each element in turn moves towards
  the front past the elements it is less than.
\<close>

fun insertBack :: "nat option \<Rightarrow> string \<Rightarrow> string list \<Rightarrow> string list" where
  "insertBack dflt x [] = [x]"
| "insertBack dflt x (y # ys) = (if Less dflt x y then y # insertBack dflt x ys else x # y # ys)"

definition sortByPriorityPrefix :: "nat option \<Rightarrow> string list \<Rightarrow> string list" where
  "sortByPriorityPrefix dflt names =
     foldl (\<lambda>sorted x. rev (insertBack dflt x (rev sorted))) [] names"

section \<open>Amazon provider: security rules (cloud/amazon, SetACLs)\<close>

text \<open>
  An ACL of the \<open>acl\<close> package, and an ingress rule of a security group as the EC2 API
  has it: the ports are optional (a rule for all protocols, \<open>-1\<close>, carries none) and so
  is nothing else the rules here use.
\<close>

record ACL =
  CidrIP :: string
  MinPort :: int
  MaxPort :: int

record IpPermission =
  IpProtocol :: string
  FromPort :: "int option"
  ToPort :: "int option"
  IpRanges :: "string list"

text \<open>
  The security group of the namespace at the provider: its ingress rules, and the rules
  handed to RevokeSecurityGroup and to AuthorizeSecurityGroup so far.
\<close>

record securityGroup =
  IpPermissions :: "IpPermission list"
  Revoked :: "IpPermission list"
  Authorized :: "IpPermission list"

text \<open>
  Modelled from the spec: SetACLs is declared outside the files at hand (only its test,
  TestNewACLs, is there). In the spec's words it replaces the inbound rules with the given
  set, extra rules removed and missing ones added, and each \<open>(cidr, minPort, maxPort)\<close>
  produces rules for tcp, udp and icmp, the icmp rule with the port range \<open>-1..-1\<close>. The
  calls to the provider are taken to succeed.
\<close>

definition ipPerm :: "string \<Rightarrow> int \<Rightarrow> int \<Rightarrow> string \<Rightarrow> IpPermission" where
  "ipPerm proto lo hi cidr =
     \<lparr>IpProtocol = proto, FromPort = Some lo, ToPort = Some hi, IpRanges = [cidr]\<rparr>"

definition expandACL :: "ACL \<Rightarrow> IpPermission list" where
  "expandACL a =
     [ipPerm ''tcp'' (MinPort a) (MaxPort a) (CidrIP a),
      ipPerm ''udp'' (MinPort a) (MaxPort a) (CidrIP a),
      ipPerm ''icmp'' (- 1) (- 1) (CidrIP a)]"

definition SetACLs :: "ACL list \<Rightarrow> securityGroup \<Rightarrow> securityGroup" where
  "SetACLs acls g =
     (let desired = remdups (concat (map expandACL acls));
          toRevoke = filter (\<lambda>p. p \<notin> set desired) (IpPermissions g);
          toAuthorize = filter (\<lambda>p. p \<notin> set (IpPermissions g)) desired
      in g\<lparr>IpPermissions := filter (\<lambda>p. p \<in> set desired) (IpPermissions g) @ toAuthorize,
           Revoked := Revoked g @ toRevoke,
           Authorized := Authorized g @ toAuthorize\<rparr>)"

text \<open>The security group TestNewACLs starts from, and the ACLs it sets.\<close>

definition testGroup :: securityGroup where
  "testGroup =
     \<lparr>IpPermissions =
        [\<lparr>IpProtocol = ''-1'', FromPort = None, ToPort = None, IpRanges = [''deleteMe'']\<rparr>,
         ipPerm ''tcp'' 1 65535 ''foo'',
         ipPerm ''udp'' 1 65535 ''foo''],
      Revoked = [], Authorized = []\<rparr>"

definition emptyGroup :: securityGroup where
  "emptyGroup = \<lparr>IpPermissions = [], Revoked = [], Authorized = []\<rparr>"

definition aclFoo :: ACL where
  "aclFoo = \<lparr>CidrIP = ''foo'', MinPort = 1, MaxPort = 65535\<rparr>"

definition aclBar :: ACL where
  "aclBar = \<lparr>CidrIP = ''bar'', MinPort = 80, MaxPort = 80\<rparr>"

section \<open>Theorems\<close>

text \<open>
  C8, as stated, fails on the number of keys: the configuration table of cfgOVNImpl has
  five entries (ovn-remote, ovn-encap-ip, ovn-encap-type, api_server, system-id), not six.
\<close>

theorem cfgOVN_six_keys_counterexample:
  "length (ovnConf quoteIP ''10.0.0.2'' ''10.0.0.1'') \<noteq> 6"
  by (simp add: ovnConf_def)

text \<open>
  C8, amended: cfgOVNImpl handles five external-id keys; it issues exactly one get command
  naming all five, and after it a single set command exactly when the get succeeded with
  an output different from the expected concatenation of the five values, each followed by
  a newline. When the output matches, the get is the only command issued.
\<close>

theorem cfgOVN_set_iff_differs:
  "length (ovnConf q myIP leaderIP) = 5 \<and>
   issued (snd (cfgOVNImpl q myIP leaderIP sh)) =
     issued sh @ [(''ovs-vsctl'', getCmd (ovnConf q myIP leaderIP))] @
       (if snd (respond sh (issued sh) (''ovs-vsctl'', getCmd (ovnConf q myIP leaderIP))) = None \<and>
           fst (respond sh (issued sh) (''ovs-vsctl'', getCmd (ovnConf q myIP leaderIP)))
             \<noteq> expOutput (ovnConf q myIP leaderIP)
        then [(''ovs-vsctl'', setCmd (ovnConf q myIP leaderIP))] else [])"
  by (auto simp: cfgOVNImpl_def execRun_def Let_def ovnConf_def split: prod.splits option.splits)

theorem cfgOVN_set_iff_differs_witness:
  "issued (snd (cfgOVNImpl quoteIP ''10.0.0.2'' ''10.0.0.1''
      (fixedShell (expOutput (ovnConf quoteIP ''10.0.0.2'' ''10.0.0.1''))))) =
     [(''ovs-vsctl'', getCmd (ovnConf quoteIP ''10.0.0.2'' ''10.0.0.1''))] \<and>
   issued (snd (cfgOVNImpl quoteIP ''10.0.0.2'' ''10.0.0.1'' (fixedShell ''''))) =
     [(''ovs-vsctl'', getCmd (ovnConf quoteIP ''10.0.0.2'' ''10.0.0.1'')),
      (''ovs-vsctl'', setCmd (ovnConf quoteIP ''10.0.0.2'' ''10.0.0.1''))]"
  using cfgOVN_set_iff_differs [of quoteIP "''10.0.0.2''" "''10.0.0.1''"
      "fixedShell (expOutput (ovnConf quoteIP ''10.0.0.2'' ''10.0.0.1''))"]
    cfgOVN_set_iff_differs [of quoteIP "''10.0.0.2''" "''10.0.0.1''" "fixedShell ''''"]
  by (simp add: fixedShell_def expOutput_def ovnConf_def)

text \<open>
  C7, as stated, fails: a known leader does not suffice for the ovn-controller. With the
  minion's PrivateIP set and a LeaderIP known, but the OVN configuration failing (here the
  ovs-vsctl get fails), runWorkerOnce leaves the ovn-controller out of the desired list.
\<close>

theorem runWorkerOnce_leader_known_counterexample:
  "MinionPrivateIP \<lparr>Self = True, MinionPrivateIP = ''10.0.0.2''\<rparr> \<noteq> '''' \<and>
   LeaderIP \<lparr>EtcdIPs = [''10.0.0.1''], LeaderIP = ''10.0.0.1'', Leader = False\<rparr> \<noteq> '''' \<and>
   map Name (fst (runWorkerOnce quoteIP sampleKube
       \<lparr>Self = True, MinionPrivateIP = ''10.0.0.2''\<rparr>
       [\<lparr>EtcdIPs = [''10.0.0.1''], LeaderIP = ''10.0.0.1'', Leader = False\<rparr>] failShell)) =
     [''ovsdb-server'', ''ovs-vswitchd'', ''etcd'', ''kubelet'']"
  by (simp add: runWorkerOnce_def selectEtcdRow_def cfgOVNImpl_def execRun_def failShell_def
      sampleKube_def Let_def etcdContainer_def kubeletContainer_def zeroRunOptions_def
      OvsdbName_def OvsvswitchdName_def EtcdName_def KubeletName_def)

text \<open>
  C7, amended: on every pass the desired list is, in this order, ovsdb-server and
  ovs-vswitchd always; an etcd container exactly when EtcdIPs is non-empty, run in proxy
  mode with the initial cluster built from EtcdIPs; an ovn-controller exactly when the
  minion's PrivateIP and the LeaderIP are both non-empty and the OVN configuration
  succeeded; and a kubelet exactly when the minion's PrivateIP and the LeaderIP are both
  non-empty and the kubeconfig for the leader could be serialised.
\<close>

theorem runWorkerOnce_desired:
  "map Name (fst (runWorkerOnce q k minion etcdRows sh)) =
     [OvsdbName, OvsvswitchdName] @
     (if EtcdIPs (selectEtcdRow etcdRows) \<noteq> [] then [EtcdName] else []) @
     (if MinionPrivateIP minion \<noteq> '''' \<and> LeaderIP (selectEtcdRow etcdRows) \<noteq> '''' \<and>
         fst (cfgOVNImpl q (MinionPrivateIP minion) (LeaderIP (selectEtcdRow etcdRows)) sh) = None
      then [OvncontrollerName] else []) @
     (if MinionPrivateIP minion \<noteq> '''' \<and> LeaderIP (selectEtcdRow etcdRows) \<noteq> '''' \<and>
         isl (writeKubeconfig k (''https://'' @ LeaderIP (selectEtcdRow etcdRows) @ '':6443'')) = False
      then [KubeletName] else []) \<and>
   filter (\<lambda>ro. Name ro = EtcdName) (fst (runWorkerOnce q k minion etcdRows sh)) =
     (if EtcdIPs (selectEtcdRow etcdRows) \<noteq> []
      then [etcdContainer (etcdProxyArgs (EtcdIPs (selectEtcdRow etcdRows)))] else []) \<and>
   ''--proxy=on'' \<in> set (etcdProxyArgs (EtcdIPs (selectEtcdRow etcdRows))) \<and>
   ''--initial-cluster='' @ initialClusterString (EtcdIPs (selectEtcdRow etcdRows))
     \<in> set (etcdProxyArgs (EtcdIPs (selectEtcdRow etcdRows)))"
proof -
  have names: "EtcdName \<noteq> OvsdbName" "EtcdName \<noteq> OvsvswitchdName"
    "EtcdName \<noteq> OvncontrollerName" "EtcdName \<noteq> KubeletName"
    by (simp_all add: EtcdName_def OvsdbName_def OvsvswitchdName_def OvncontrollerName_def
        KubeletName_def)
  have fields: "Name (etcdContainer a) = EtcdName"
    "Name (kubeletContainer k ip b) = KubeletName" for a ip b
    by (simp_all add: etcdContainer_def kubeletContainer_def zeroRunOptions_def)
  show ?thesis
    using names
    by (auto simp: runWorkerOnce_def Let_def fields etcdProxyArgs_def zeroRunOptions_def
        split: prod.splits sum.splits)
qed

text \<open>
  C10, as stated, fails: the removal after a failed start can itself fail, and Run drops
  that error. With a daemon that can neither start nor remove containers, Run returns the
  empty id and the start error, and the container it created stays behind, not running.
\<close>

theorem Run_start_failure_counterexample:
  "fst (Run mockClient mockLibs (zeroRunOptions\<lparr>Name := ''name1''\<rparr>) 1 2
      (newMock\<lparr>daemon := (daemon newMock)\<lparr>StartError := True, RemoveError := True\<rparr>\<rparr>)) =
     ('''', Some (Err ''start error'')) \<and>
   Containers (daemon (snd (Run mockClient mockLibs (zeroRunOptions\<lparr>Name := ''name1''\<rparr>) 1 2
      (newMock\<lparr>daemon := (daemon newMock)\<lparr>StartError := True, RemoveError := True\<rparr>\<rparr>)))) =
     [(''c'', False)]"
  by (simp add: Run_def create_def Pull_def getCacheEntry_def ParseRepositoryTag_def RemoveID_def
      hostConfigOf_def mockClient_def mockLibs_def newMock_def zeroRunOptions_def Let_def)

text \<open>
  C10, amended: for every RunOptions input, if \<open>create\<close> succeeds with a container id and
  starting that container fails, Run asks the daemon for the forced removal of exactly that
  container, drops the outcome of the removal, and returns the empty id together with the
  start error. The daemon is left as the removal call leaves it: the container is gone
  whenever the removal succeeds.
\<close>

theorem Run_start_failure_removes:
  assumes "create ops l (Name opts) (Image opts) (Hostname opts) (Args opts) (Labels opts)
             (map (\<lambda>(k, v). k @ ''='' @ v) (Env opts)) (FilepathToContent opts)
             (hostConfigOf opts) now1 now2 dk = ((cid, None), dk1)"
    and "StartContainer ops cid (hostConfigOf opts) (daemon dk1) = (Some err, d2)"
  shows "Run ops l opts now1 now2 dk =
           (('''', Some err), dk1\<lparr>daemon := snd (RemoveContainer ops cid True d2)\<rparr>)"
  using assms
  by (simp add: Run_def RemoveID_def Let_def split: prod.splits option.splits)

theorem Run_start_failure_removes_witness:
  "Run mockClient mockLibs (zeroRunOptions\<lparr>Name := ''name1''\<rparr>) 1 2
      (newMock\<lparr>daemon := (daemon newMock)\<lparr>StartError := True\<rparr>\<rparr>) =
     (('''', Some (Err ''start error'')),
      \<lparr>daemon = \<lparr>PullError = False, CreateError = False, StartError = True, RemoveError = False,
         UploadError = False, Pulled = ['':latest''], Containers = [], nextID = 1\<rparr>,
       imageCache = ['':latest'' \<mapsto> 2 + pullCacheTimeout]\<rparr>)"
proof -
  let ?dk = "newMock\<lparr>daemon := (daemon newMock)\<lparr>StartError := True\<rparr>\<rparr>"
  let ?dk1 = "\<lparr>daemon = \<lparr>PullError = False, CreateError = False, StartError = True,
         RemoveError = False, UploadError = False, Pulled = ['':latest''],
         Containers = [(''c'', False)], nextID = 1\<rparr>,
       imageCache = ['':latest'' \<mapsto> 2 + pullCacheTimeout]\<rparr>"
  have c: "create mockClient mockLibs (Name (zeroRunOptions\<lparr>Name := ''name1''\<rparr>))
      (Image (zeroRunOptions\<lparr>Name := ''name1''\<rparr>)) (Hostname (zeroRunOptions\<lparr>Name := ''name1''\<rparr>))
      (Args (zeroRunOptions\<lparr>Name := ''name1''\<rparr>)) (Labels (zeroRunOptions\<lparr>Name := ''name1''\<rparr>))
      (map (\<lambda>(k, v). k @ ''='' @ v) (Env (zeroRunOptions\<lparr>Name := ''name1''\<rparr>)))
      (FilepathToContent (zeroRunOptions\<lparr>Name := ''name1''\<rparr>))
      (hostConfigOf (zeroRunOptions\<lparr>Name := ''name1''\<rparr>)) 1 2 ?dk = ((''c'', None), ?dk1)"
    by (simp add: create_def Pull_def getCacheEntry_def ParseRepositoryTag_def
        mockClient_def mockLibs_def newMock_def zeroRunOptions_def Let_def)
  have s: "StartContainer mockClient ''c'' (hostConfigOf (zeroRunOptions\<lparr>Name := ''name1''\<rparr>))
      (daemon ?dk1) = (Some (Err ''start error''), daemon ?dk1)"
    by (simp add: mockClient_def)
  show ?thesis
    using Run_start_failure_removes [OF c s]
    by (simp add: mockClient_def)
qed







lemma SplitAfter_nonempty: "SplitAfter s \<noteq> []"
  by (induction s) (auto split: list.splits)

lemma concat_SplitAfter: "concat (SplitAfter s) = s"
  by (induction s) (auto split: list.splits)

lemma SplitAfter_lines:
  "list_all (\<lambda>l. l \<noteq> [] \<and> last l = CHR 0x0A \<and> CHR 0x0A \<notin> set (butlast l)) (butlast (SplitAfter s))"
  by (induction s) (auto split: list.splits if_splits simp: SplitAfter_nonempty)

lemma SplitAfter_last: "CHR 0x0A \<notin> set (last (SplitAfter s))"
  by (induction s) (auto split: list.splits if_splits simp: SplitAfter_nonempty)

lemma colorizeLine_cases:
  "colorizeLine [] = []"
  "colorizeLine (c # l) =
     (if c = CHR ''+'' then green @ c # l @ reset
      else if c = CHR ''-'' then red @ c # l @ reset
      else c # l)"
  by (simp_all add: colorizeLine_def HasPrefix_def)

text \<open>
  C9: colorizeDiff colours line by line. The lines of the input are its pieces after each
  newline: put together they are the input, every one but the last ends with its newline
  and holds no other, and the last holds none. The output is the lines in order, each one
  that begins with \<open>+\<close> between the green escape and the reset, each one that begins with
  \<open>-\<close> between the red escape and the reset, every other line (the empty one too) as it
  is. The inputs of TestColorize give the outputs the test expects; among them are the two
  lines of the example, the first red and the second green.
\<close>

theorem colorizeDiff_lines:
  "concat (SplitAfter s) = s \<and>
   list_all (\<lambda>l. l \<noteq> [] \<and> last l = CHR 0x0A \<and> CHR 0x0A \<notin> set (butlast l)) (butlast (SplitAfter s)) \<and>
   CHR 0x0A \<notin> set (last (SplitAfter s)) \<and>
   colorizeDiff s = concat (map colorizeLine (SplitAfter s)) \<and>
   colorizeLine [] = [] \<and>
   colorizeLine (c # l) =
     (if c = CHR ''-'' then red @ c # l @ reset
      else if c = CHR ''+'' then green @ c # l @ reset
      else c # l) \<and>
   colorizeDiff (''-'' @ [CHR 0x09] @ ''red'' @ [CHR 0x0A] @ ''+'' @ [CHR 0x09] @ ''green'' @ [CHR 0x0A]) =
     red @ ''-'' @ [CHR 0x09] @ ''red'' @ [CHR 0x0A] @ reset @
     green @ ''+'' @ [CHR 0x09] @ ''green'' @ [CHR 0x0A] @ reset \<and>
   colorizeDiff ''{}'' = ''{}'' \<and>
   colorizeDiff (''no color'' @ [CHR 0x0A] @ ''-'' @ [CHR 0x09] @ ''red'' @ [CHR 0x0A] @
       ''+'' @ [CHR 0x09] @ ''green'' @ [CHR 0x0A]) =
     ''no color'' @ [CHR 0x0A] @ red @ ''-'' @ [CHR 0x09] @ ''red'' @ [CHR 0x0A] @ reset @
     green @ ''+'' @ [CHR 0x09] @ ''green'' @ [CHR 0x0A] @ reset \<and>
   colorizeDiff [CHR 0x0A] = [CHR 0x0A] \<and>
   colorizeDiff [CHR 0x0A, CHR ''a'', CHR 0x0A, CHR 0x0A] = [CHR 0x0A, CHR ''a'', CHR 0x0A, CHR 0x0A] \<and>
   colorizeDiff (''+----+---+'' @ [CHR 0x0A]) = green @ ''+----+---+'' @ [CHR 0x0A] @ reset"
proof (intro conjI)
  show "concat (SplitAfter s) = s"
    by (rule concat_SplitAfter)
  show "list_all (\<lambda>l. l \<noteq> [] \<and> last l = CHR 0x0A \<and> CHR 0x0A \<notin> set (butlast l)) (butlast (SplitAfter s))"
    by (rule SplitAfter_lines)
  show "CHR 0x0A \<notin> set (last (SplitAfter s))"
    by (rule SplitAfter_last)
  show "colorizeDiff s = concat (map colorizeLine (SplitAfter s))"
    by (simp add: colorizeDiff_def)
  show "colorizeLine [] = []"
    by (simp add: colorizeLine_cases)
  show "colorizeLine (c # l) =
     (if c = CHR ''-'' then red @ c # l @ reset
      else if c = CHR ''+'' then green @ c # l @ reset
      else c # l)"
    by (simp add: colorizeLine_cases)
qed (simp_all add: colorizeDiff_def colorizeLine_cases)

lemma splitPriority_examples:
  "splitPriority ''foo'' = (None, ''foo'')"
  "splitPriority ''100-bar'' = (Some 100, ''bar'')"
  "splitPriority ''20-bar'' = (Some 20, ''bar'')"
  "splitPriority ''100-foo'' = (Some 100, ''foo'')"
  "splitPriority ''05-bar'' = (Some 5, ''bar'')"
  "splitPriority ''00-baz'' = (Some 0, ''baz'')"
  "splitPriority ''50-bar'' = (Some 50, ''bar'')"
  "splitPriority ''50-foo'' = (Some 50, ''foo'')"
  by (simp_all add: splitPriority_def isDigit_def Atoi_def)

lemma strLess_irrefl: "\<not> strLess a a"
  by (induction a) auto

lemma strLess_trans: "strLess a b \<Longrightarrow> strLess b c \<Longrightarrow> strLess a c"
proof (induction a b arbitrary: c rule: strLess.induct)
  case (2 y ys)
  then show ?case by (cases c) auto
next
  case (4 x xs y ys)
  then show ?case by (cases c) auto
qed auto

lemma strLess_total: "strLess a b \<or> a = b \<or> strLess b a"
proof (induction a b rule: strLess.induct)
  case (4 x xs y ys)
  then show ?case
    by (cases "(of_char x :: nat) < of_char y"; cases "(of_char y :: nat) < of_char x")
      (auto simp: not_less dest: antisym)
qed auto

lemma prioLess_irrefl: "\<not> prioLess p p"
  by (cases p) auto

lemma prioLess_trans: "prioLess p q \<Longrightarrow> prioLess q r \<Longrightarrow> prioLess p r"
  by (cases p; cases q; cases r) auto

lemma prioLess_total: "prioLess p q \<or> p = q \<or> prioLess q p"
  by (cases p; cases q) auto

lemma prioLess_not: "(\<not> prioLess p q) = (p = q \<or> prioLess q p)"
  by (cases p; cases q) auto

lemma strLess_not: "(\<not> strLess a b) = (a = b \<or> strLess b a)"
  using strLess_total [of a b] strLess_irrefl [of a] strLess_trans [of a b a] by blast

lemma Less_asym: "Less dflt a b \<Longrightarrow> \<not> Less dflt b a"
  unfolding Less_def
  using prioLess_irrefl [of "priorityOf dflt a"]
    prioLess_trans [of "priorityOf dflt a" "priorityOf dflt b" "priorityOf dflt a"]
    strLess_irrefl [of "snd (splitPriority a)"]
    strLess_trans [of "snd (splitPriority a)" "snd (splitPriority b)" "snd (splitPriority a)"]
  by auto

lemma Less_negtrans: "\<not> Less dflt a b \<Longrightarrow> \<not> Less dflt b c \<Longrightarrow> \<not> Less dflt a c"
proof -
  assume ab: "\<not> Less dflt a b" and bc: "\<not> Less dflt b c"
  let ?pa = "priorityOf dflt a" and ?pb = "priorityOf dflt b" and ?pc = "priorityOf dflt c"
  let ?ra = "snd (splitPriority a)" and ?rb = "snd (splitPriority b)" and ?rc = "snd (splitPriority c)"
  from ab have 1: "?pa = ?pb \<or> prioLess ?pb ?pa" and 2: "?pa = ?pb \<Longrightarrow> ?ra = ?rb \<or> strLess ?rb ?ra"
    by (auto simp: Less_def prioLess_not strLess_not)
  from bc have 3: "?pb = ?pc \<or> prioLess ?pc ?pb" and 4: "?pb = ?pc \<Longrightarrow> ?rb = ?rc \<or> strLess ?rc ?rb"
    by (auto simp: Less_def prioLess_not strLess_not)
  from 1 3 have 5: "?pa = ?pc \<or> prioLess ?pc ?pa"
    using prioLess_trans [of ?pc ?pb ?pa] by auto
  have 6: "?ra = ?rc \<or> strLess ?rc ?ra" if "?pa = ?pc"
  proof -
    from that 1 3 have "?pa = ?pb" "?pb = ?pc"
      using prioLess_irrefl [of ?pb] prioLess_trans [of ?pb ?pa ?pb] by auto
    with 2 4 show ?thesis
      using strLess_trans [of ?rc ?rb ?ra] by auto
  qed
  from 5 6 show "\<not> Less dflt a c"
    by (auto simp: Less_def prioLess_not strLess_not)
qed

lemma set_insertBack: "set (insertBack dflt x ys) = insert x (set ys)"
  by (induction ys) auto

lemma mset_insertBack: "mset (insertBack dflt x ys) = add_mset x (mset ys)"
  by (induction ys) auto

lemma sorted_insertBack:
  "sorted_wrt (\<lambda>a b. \<not> Less dflt a b) ys \<Longrightarrow> sorted_wrt (\<lambda>a b. \<not> Less dflt a b) (insertBack dflt x ys)"
proof (induction ys)
  case Nil
  then show ?case by simp
next
  case (Cons y ys)
  show ?case
  proof (cases "Less dflt x y")
    case True
    with Cons show ?thesis
      by (auto simp: set_insertBack dest: Less_asym)
  next
    case False
    with Cons.prems show ?thesis
      by (auto dest: Less_negtrans)
  qed
qed

lemma sort_step_mset:
  "mset (foldl (\<lambda>sorted x. rev (insertBack dflt x (rev sorted))) acc names) = mset acc + mset names"
  by (induction names arbitrary: acc) (auto simp: mset_insertBack)

lemma sort_step_sorted:
  "sorted_wrt (\<lambda>a b. \<not> Less dflt b a) acc \<Longrightarrow>
   sorted_wrt (\<lambda>a b. \<not> Less dflt b a)
     (foldl (\<lambda>sorted x. rev (insertBack dflt x (rev sorted))) acc names)"
proof (induction names arbitrary: acc)
  case Nil
  then show ?case by simp
next
  case (Cons n names)
  from Cons.prems have "sorted_wrt (\<lambda>a b. \<not> Less dflt a b) (rev acc)"
    by (simp add: sorted_wrt_rev)
  then have "sorted_wrt (\<lambda>a b. \<not> Less dflt a b) (insertBack dflt n (rev acc))"
    by (rule sorted_insertBack)
  then have "sorted_wrt (\<lambda>a b. \<not> Less dflt b a) (rev (insertBack dflt n (rev acc)))"
    by (simp add: sorted_wrt_rev)
  then show ?case
    using Cons.IH by simp
qed
text \<open>
  C2, as stated, fails on the default priority: with infinity as the priority of a name
  without prefix, \<open>foo\<close> sorts after \<open>100-bar\<close>, not before it as the claim (and
  TestPriorityPrefix) has it.
\<close>

theorem byPriorityPrefix_infinity_counterexample:
  "sortByPriorityPrefix None [''foo'', ''100-bar''] = [''100-bar'', ''foo''] \<and>
   sortByPriorityPrefix None [''foo'', ''100-bar''] \<noteq> [''foo'', ''100-bar'']"
  by (simp add: sortByPriorityPrefix_def Less_def priorityOf_def splitPriority_examples)

text \<open>
  C2, amended: the priority of a name without prefix is a finite default \<open>d\<close> with
  \<open>20 \<le> d < 100\<close>. Sorting then permutes the names and leaves them ordered by priority
  first and by the remainder second (no name is followed by one less than it); the lists
  of the claim and of TestPriorityPrefix sort as stated.
\<close>

theorem byPriorityPrefix_sorts:
  assumes "20 \<le> d" "d < 100"
  shows "mset (sortByPriorityPrefix (Some d) names) = mset names \<and>
   sorted_wrt (\<lambda>a b. \<not> Less (Some d) b a) (sortByPriorityPrefix (Some d) names) \<and>
   sortByPriorityPrefix (Some d) [''100-foo'', ''05-bar'', ''00-baz''] = [''00-baz'', ''05-bar'', ''100-foo''] \<and>
   sortByPriorityPrefix (Some d) [''foo'', ''20-bar''] = [''20-bar'', ''foo''] \<and>
   sortByPriorityPrefix (Some d) [''foo'', ''100-bar''] = [''foo'', ''100-bar''] \<and>
   sortByPriorityPrefix (Some d) [''100-foo'', ''50-bar''] = [''50-bar'', ''100-foo''] \<and>
   sortByPriorityPrefix (Some d) [''50-bar'', ''100-foo''] = [''50-bar'', ''100-foo''] \<and>
   sortByPriorityPrefix (Some d) [''50-foo'', ''50-bar''] = [''50-bar'', ''50-foo'']"
proof (intro conjI)
  show "mset (sortByPriorityPrefix (Some d) names) = mset names"
    by (simp add: sortByPriorityPrefix_def sort_step_mset)
  show "sorted_wrt (\<lambda>a b. \<not> Less (Some d) b a) (sortByPriorityPrefix (Some d) names)"
    unfolding sortByPriorityPrefix_def by (rule sort_step_sorted) simp
  show "sortByPriorityPrefix (Some d) [''100-foo'', ''05-bar'', ''00-baz''] = [''00-baz'', ''05-bar'', ''100-foo'']"
    by (simp add: sortByPriorityPrefix_def Less_def priorityOf_def splitPriority_examples)
  show "sortByPriorityPrefix (Some d) [''foo'', ''20-bar''] = [''20-bar'', ''foo'']"
    using assms by (auto simp add: sortByPriorityPrefix_def Less_def priorityOf_def splitPriority_examples)
  show "sortByPriorityPrefix (Some d) [''foo'', ''100-bar''] = [''foo'', ''100-bar'']"
    using assms by (auto simp add: sortByPriorityPrefix_def Less_def priorityOf_def splitPriority_examples)
  show "sortByPriorityPrefix (Some d) [''100-foo'', ''50-bar''] = [''50-bar'', ''100-foo'']"
    by (simp add: sortByPriorityPrefix_def Less_def priorityOf_def splitPriority_examples)
  show "sortByPriorityPrefix (Some d) [''50-bar'', ''100-foo''] = [''50-bar'', ''100-foo'']"
    by (simp add: sortByPriorityPrefix_def Less_def priorityOf_def splitPriority_examples)
  show "sortByPriorityPrefix (Some d) [''50-foo'', ''50-bar''] = [''50-bar'', ''50-foo'']"
    by (simp add: sortByPriorityPrefix_def Less_def priorityOf_def splitPriority_examples)
qed

theorem byPriorityPrefix_sorts_witness:
  "(20::nat) \<le> 50 \<and> (50::nat) < 100 \<and>
   mset (sortByPriorityPrefix (Some 50) [''foo'', ''20-bar'']) = mset [''foo'', ''20-bar''] \<and>
   sortByPriorityPrefix (Some 50) [''foo'', ''20-bar''] = [''20-bar'', ''foo''] \<and>
   sortByPriorityPrefix (Some 50) [''foo'', ''100-bar''] = [''foo'', ''100-bar'']"
  using byPriorityPrefix_sorts [of 50 "[''foo'', ''20-bar'']"] by simp

lemma desired_set:
  "set (remdups (concat (map expandACL acls))) = (\<Union>a\<in>set acls. set (expandACL a))"
  by simp

text \<open>
  C1: SetACLs expands each ACL into exactly three rules, tcp and udp on the ACL's port
  range and icmp on \<open>-1..-1\<close>, each with the ACL's IP range and no two of them equal.
  After SetACLs the rules of the security group are the expansions of the given ACLs and
  nothing else; the rules revoked are the ones that were present and are in no
  expansion, the rules authorized are those of the expansions that were not present. For
  the single ACL foo, 1 to 65535, on a group without rules, the three rules of foo are
  authorized and are the group's rules; from the group of TestNewACLs, setting foo and
  bar revokes the rule of deleteMe and authorizes icmp for foo and the three rules of bar.
\<close>

theorem SetACLs_expansion:
  "expandACL a =
     [\<lparr>IpProtocol = ''tcp'', FromPort = Some (MinPort a), ToPort = Some (MaxPort a), IpRanges = [CidrIP a]\<rparr>,
      \<lparr>IpProtocol = ''udp'', FromPort = Some (MinPort a), ToPort = Some (MaxPort a), IpRanges = [CidrIP a]\<rparr>,
      \<lparr>IpProtocol = ''icmp'', FromPort = Some (- 1), ToPort = Some (- 1), IpRanges = [CidrIP a]\<rparr>] \<and>
   distinct (expandACL a) \<and>
   set (IpPermissions (SetACLs acls g)) = (\<Union>a\<in>set acls. set (expandACL a)) \<and>
   Revoked (SetACLs acls g) =
     Revoked g @ filter (\<lambda>p. p \<notin> (\<Union>a\<in>set acls. set (expandACL a))) (IpPermissions g) \<and>
   set (Authorized (SetACLs acls g)) =
     set (Authorized g) \<union> ((\<Union>a\<in>set acls. set (expandACL a)) - set (IpPermissions g)) \<and>
   IpPermissions (SetACLs [aclFoo] emptyGroup) =
     [ipPerm ''tcp'' 1 65535 ''foo'', ipPerm ''udp'' 1 65535 ''foo'', ipPerm ''icmp'' (- 1) (- 1) ''foo''] \<and>
   Authorized (SetACLs [aclFoo] emptyGroup) =
     [ipPerm ''tcp'' 1 65535 ''foo'', ipPerm ''udp'' 1 65535 ''foo'', ipPerm ''icmp'' (- 1) (- 1) ''foo''] \<and>
   Revoked (SetACLs [aclFoo, aclBar] testGroup) =
     [\<lparr>IpProtocol = ''-1'', FromPort = None, ToPort = None, IpRanges = [''deleteMe'']\<rparr>] \<and>
   Authorized (SetACLs [aclFoo, aclBar] testGroup) =
     [ipPerm ''icmp'' (- 1) (- 1) ''foo'', ipPerm ''tcp'' 80 80 ''bar'', ipPerm ''udp'' 80 80 ''bar'',
      ipPerm ''icmp'' (- 1) (- 1) ''bar'']"
proof (intro conjI)
  show "set (IpPermissions (SetACLs acls g)) = (\<Union>a\<in>set acls. set (expandACL a))"
    unfolding SetACLs_def Let_def desired_set by auto
  show "Revoked (SetACLs acls g) =
     Revoked g @ filter (\<lambda>p. p \<notin> (\<Union>a\<in>set acls. set (expandACL a))) (IpPermissions g)"
    unfolding SetACLs_def Let_def desired_set by simp
  show "set (Authorized (SetACLs acls g)) =
     set (Authorized g) \<union> ((\<Union>a\<in>set acls. set (expandACL a)) - set (IpPermissions g))"
    unfolding SetACLs_def Let_def desired_set by auto
qed (simp_all add: expandACL_def ipPerm_def SetACLs_def emptyGroup_def testGroup_def aclFoo_def
    aclBar_def Let_def)

end
